theory Spec2Isabelle
  imports Main "HOL-Library.Sublist" "HOL-Library.List_Lexorder"
begin

section \<open>The compat-shim checker: \<open>scripts/check_types_compat.py\<close>\<close>

text \<open>
  The script reads \<open>Cargo.lock\<close> and \<open>Cargo.toml\<close> from the working directory and
  returns a process exit status. The embedding follows the script line by line. Every
  exception the script can raise is a value of \<open>py_exception\<close>, a function that can
  raise returns \<open>py_exception + 'a\<close> with \<open>Inl\<close> for the exception, and the lines
  printed are returned next to the result.

  Text is Latin-1 text: a \<open>string\<close> is a list of characters with code points below
  256, and the built-ins \<open>int\<close>, \<open>repr\<close> and \<open>str.split\<close> are written out for
  that range.
\<close>

subsection \<open>Values and exceptions\<close>

text \<open>
  What \<open>tomllib.loads\<close> can return: a dict at the top, whose values are strings,
  integers, floats, booleans, dates and times, lists and dicts. A dict is an association
  list read with \<open>map_of\<close>. Floats and temporal values keep their literal text; the
  script looks at nothing but their type.
\<close>

datatype toml =
    TStr string
  | TInt int
  | TFloat string
  | TBool bool
  | TDatetime string
  | TDate string
  | TTime string
  | TArr "toml list"
  | TTable "(string \<times> toml) list"

text \<open>The name Python prints for the type of a value, as it appears in error messages.\<close>

fun type_name :: "toml \<Rightarrow> string" where
  "type_name (TStr _) = ''str''"
| "type_name (TInt _) = ''int''"
| "type_name (TFloat _) = ''float''"
| "type_name (TBool _) = ''bool''"
| "type_name (TDatetime _) = ''datetime.datetime''"
| "type_name (TDate _) = ''datetime.date''"
| "type_name (TTime _) = ''datetime.time''"
| "type_name (TArr _) = ''list''"
| "type_name (TTable _) = ''dict''"

text \<open>Why reading a file as text failed.\<close>

datatype read_error =
    FileNotFoundError
  | PermissionError
  | IsADirectoryError
  | UnicodeDecodeError
  | OtherOSError string

text \<open>
  The exceptions of a run. \<open>SystemExit\<close> and \<open>ValueError\<close> carry their message,
  \<open>AttributeError\<close> the type name and the attribute, \<open>TypeError\<close> the type name of
  the value the operation does not apply to, \<open>KeyError\<close> the key.
\<close>

datatype py_exception =
    SystemExit string
  | ValueError string
  | AttributeError string string
  | TypeError string
  | KeyError string
  | TOMLDecodeError string
  | ReadError read_error

subsection \<open>Built-ins on strings and integers\<close>

text \<open>\<open>value.split(sep)\<close> for a one-character separator: empty pieces are kept.\<close>

fun split_from :: "char \<Rightarrow> string \<Rightarrow> string \<Rightarrow> string list" where
  "split_from sep cur [] = [rev cur]"
| "split_from sep cur (c # cs) =
     (if c = sep then rev cur # split_from sep [] cs else split_from sep (c # cur) cs)"

definition str_split :: "char \<Rightarrow> string \<Rightarrow> string list" where
  "str_split sep s = split_from sep [] s"

text \<open>\<open>sep.join(parts)\<close>.\<close>

fun str_join :: "string \<Rightarrow> string list \<Rightarrow> string" where
  "str_join sep [] = []"
| "str_join sep [p] = p"
| "str_join sep (p # q # ps) = p @ sep @ str_join sep (q # ps)"

text \<open>
  The whitespace \<open>int\<close> skips around a literal: space, tab, line feed, vertical tab,
  form feed, carriage return, and beyond ASCII the next-line character and the no-break
  space.
\<close>

definition py_isspace :: "char \<Rightarrow> bool" where
  "py_isspace c \<longleftrightarrow>
     c \<in> set [CHR 0x20, CHR 0x09, CHR 0x0A, CHR 0x0B, CHR 0x0C, CHR 0x0D, CHR 0x85, CHR 0xA0]"

definition is_digit :: "char \<Rightarrow> bool" where
  "is_digit c \<longleftrightarrow> 48 \<le> (of_char c :: nat) \<and> (of_char c :: nat) \<le> 57"

definition digit_val :: "char \<Rightarrow> nat" where
  "digit_val c = of_char c - 48"

text \<open>
  The digits of an integer literal in base 10. A single underscore may stand between
  two digits; the flag says that the previous character was an underscore. The scan stops
  at the first character that is neither, and returns the value, the number of digits
  read, and the rest.
\<close>

fun scan_digits :: "bool \<Rightarrow> nat \<Rightarrow> nat \<Rightarrow> string \<Rightarrow> (nat \<times> nat \<times> string) option" where
  "scan_digits prev_us acc digits [] = (if prev_us then None else Some (acc, digits, []))"
| "scan_digits prev_us acc digits (c # cs) =
     (if c = CHR ''_'' then (if prev_us then None else scan_digits True acc digits cs)
      else if is_digit c then scan_digits False (10 * acc + digit_val c) (Suc digits) cs
      else if prev_us then None
      else Some (acc, digits, c # cs))"

text \<open>The optional sign of a literal: whether it is negative, and the rest.\<close>

fun take_sign :: "string \<Rightarrow> bool \<times> string" where
  "take_sign [] = (False, [])"
| "take_sign (c # cs) =
     (if c = CHR ''+'' then (False, cs)
      else if c = CHR ''-'' then (True, cs)
      else (False, c # cs))"

text \<open>
  The default of \<open>sys.get_int_max_str_digits()\<close>: \<open>int\<close> refuses a literal with more
  digits.
\<close>

definition int_max_str_digits :: nat where
  "int_max_str_digits = 4300"

text \<open>
  \<open>int(part)\<close> on a string, base 10: surrounding whitespace, an optional sign, then at
  least one digit, the first character after the sign being a digit. The digits are
  counted, leading zeros included and underscores not, and the count is checked against
  the limit before the characters after the digits are looked at. Either way of failing
  is a \<open>ValueError\<close>.
\<close>

datatype int_outcome = IntValue int | InvalidLiteral | ExceedsLimit nat

definition int_literal :: "string \<Rightarrow> int_outcome" where
  "int_literal s =
     (case take_sign (dropWhile py_isspace s) of (neg, body) \<Rightarrow>
        (case body of
           [] \<Rightarrow> InvalidLiteral
         | c # _ \<Rightarrow>
             if \<not> is_digit c then InvalidLiteral
             else (case scan_digits False 0 0 body of
                     None \<Rightarrow> InvalidLiteral
                   | Some (n, digits, rest) \<Rightarrow>
                       if int_max_str_digits < digits then ExceedsLimit digits
                       else if dropWhile py_isspace rest = []
                       then IntValue (if neg then - int n else int n)
                       else InvalidLiteral)))"

text \<open>\<open>int(part)\<close> as a value: \<open>None\<close> is the \<open>ValueError\<close>.\<close>

definition py_int :: "string \<Rightarrow> int option" where
  "py_int s = (case int_literal s of IntValue n \<Rightarrow> Some n | _ \<Rightarrow> None)"

text \<open>\<open>str(n)\<close> for an integer: its decimal digits, with a minus sign when negative.\<close>

definition digit_char :: "nat \<Rightarrow> char" where
  "digit_char d = char_of (48 + d)"

function str_nat :: "nat \<Rightarrow> string" where
  "str_nat n = (if n < 10 then [digit_char n] else str_nat (n div 10) @ [digit_char (n mod 10)])"
  by pat_completeness auto
termination
  by (relation "measure (\<lambda>n. n)") auto

declare str_nat.simps [simp del]

definition str_int :: "int \<Rightarrow> string" where
  "str_int i = (if i < 0 then CHR ''-'' # str_nat (nat (- i)) else str_nat (nat i))"

text \<open>
  \<open>repr(s)\<close> of a string. The quote is the double quote when the string has a single
  quote and no double quote, the single quote otherwise; the backslash, the quote in use,
  tab, line feed, carriage return and the other characters that are not printable (the
  control characters, the no-break space and the soft hyphen) are escaped.
\<close>

definition hex_digit :: "nat \<Rightarrow> char" where
  "hex_digit d = (if d < 10 then char_of (48 + d) else char_of (87 + d))"

definition repr_char :: "char \<Rightarrow> char \<Rightarrow> string" where
  "repr_char quote c =
     (if c = quote \<or> c = CHR 0x5C then [CHR 0x5C, c]
      else if c = CHR 0x09 then [CHR 0x5C, CHR ''t'']
      else if c = CHR 0x0A then [CHR 0x5C, CHR ''n'']
      else if c = CHR 0x0D then [CHR 0x5C, CHR ''r'']
      else if (of_char c :: nat) < 32 \<or> (127 \<le> (of_char c :: nat) \<and> (of_char c :: nat) \<le> 160)
              \<or> (of_char c :: nat) = 173
        then [CHR 0x5C, CHR ''x'', hex_digit ((of_char c :: nat) div 16),
              hex_digit ((of_char c :: nat) mod 16)]
      else [c])"

definition py_repr :: "string \<Rightarrow> string" where
  "py_repr s =
     (let quote = (if CHR 0x27 \<in> set s \<and> CHR 0x22 \<notin> set s then CHR 0x22 else CHR 0x27)
      in [quote] @ concat (map (repr_char quote) s) @ [quote])"

text \<open>
  The text of the \<open>ValueError\<close> that \<open>int\<close> raises: for a literal with too many
  digits it gives the limit and the count; otherwise it quotes the literal, cut at 200
  characters.
\<close>

definition int_error_text :: "string \<Rightarrow> string" where
  "int_error_text part =
     (case int_literal part of
        ExceedsLimit digits \<Rightarrow>
          ''Exceeds the limit ('' @ str_nat int_max_str_digits
          @ '' digits) for integer string conversion: value has '' @ str_nat digits
          @ '' digits; use sys.set_int_max_str_digits() to increase the limit''
      | _ \<Rightarrow> ''invalid literal for int() with base 10: '' @ take 200 (py_repr part))"

subsection \<open>Tuples of integers\<close>

text \<open>
  Python compares two tuples at the first position where they differ, and by their
  lengths when there is none.
\<close>

datatype cmp_op = Lt | Le | Gt | Ge

fun cmp_int :: "cmp_op \<Rightarrow> int \<Rightarrow> int \<Rightarrow> bool" where
  "cmp_int Lt a b = (a < b)"
| "cmp_int Le a b = (a \<le> b)"
| "cmp_int Gt a b = (a > b)"
| "cmp_int Ge a b = (a \<ge> b)"

fun tuple_richcompare :: "cmp_op \<Rightarrow> int list \<Rightarrow> int list \<Rightarrow> bool" where
  "tuple_richcompare opr (x # xs) (y # ys) =
     (if x = y then tuple_richcompare opr xs ys else cmp_int opr x y)"
| "tuple_richcompare opr xs ys = cmp_int opr (int (length xs)) (int (length ys))"

subsection \<open>The script\<close>

text \<open>\<open>MIN_VERSION = (0, 4, 0)\<close>\<close>

definition MIN_VERSION :: "int list" where
  "MIN_VERSION = [0, 4, 0]"

text \<open>
  The generator inside \<open>parse_version\<close>: \<open>int\<close> is applied to the pieces from left to
  right, and the first \<open>ValueError\<close> ends it.
\<close>

fun int_parts :: "string list \<Rightarrow> py_exception + int list" where
  "int_parts [] = Inr []"
| "int_parts (p # ps) =
     (case py_int p of
        None \<Rightarrow> Inl (ValueError (int_error_text p))
      | Some n \<Rightarrow> (case int_parts ps of Inl e \<Rightarrow> Inl e | Inr ns \<Rightarrow> Inr (n # ns)))"

text \<open>
  The message \<open>f"unable to parse component-runtime version '{value}': {exc}"\<close>, where
  \<open>exc\<close> is the text of the \<open>ValueError\<close>.
\<close>

definition unable_msg :: "string \<Rightarrow> string \<Rightarrow> string" where
  "unable_msg value exc =
     ''unable to parse component-runtime version '' @ [CHR 0x27] @ value @ [CHR 0x27]
     @ '': '' @ exc"

text \<open>
  \<open>parse_version(value)\<close>: the tuple of the integers between the dots; a \<open>ValueError\<close>
  is caught and raised again as \<open>SystemExit\<close> with a message that quotes \<open>value\<close>.
\<close>

definition parse_version :: "string \<Rightarrow> py_exception + int list" where
  "parse_version value =
     (case int_parts (str_split CHR ''.'' value) of
        Inr t \<Rightarrow> Inr t
      | Inl (ValueError exc) \<Rightarrow> Inl (SystemExit (unable_msg value exc))
      | Inl e \<Rightarrow> Inl e)"

text \<open>
  \<open>parse_version(ver)\<close> as \<open>main\<close> calls it, on whatever the lock file holds under
  \<open>version\<close>: only a string has \<open>split\<close>.
\<close>

fun parse_version_of :: "toml \<Rightarrow> py_exception + int list" where
  "parse_version_of (TStr s) = parse_version s"
| "parse_version_of v = Inl (AttributeError (type_name v) ''split'')"

text \<open>
  \<open>for pkg in packages\<close>: a list gives its elements, a dict its keys, a string its
  characters; nothing else is iterable.
\<close>

fun py_iter :: "toml \<Rightarrow> py_exception + toml list" where
  "py_iter (TArr xs) = Inr xs"
| "py_iter (TTable kvs) = Inr (map (\<lambda>kv. TStr (fst kv)) kvs)"
| "py_iter (TStr s) = Inr (map (\<lambda>c. TStr [c]) s)"
| "py_iter v = Inl (TypeError (type_name v))"

text \<open>\<open>pkg.get(key)\<close>: only a dict has \<open>get\<close>; a missing key gives \<open>None\<close>.\<close>

fun py_get :: "toml \<Rightarrow> string \<Rightarrow> py_exception + toml option" where
  "py_get (TTable kvs) key = Inr (map_of kvs key)"
| "py_get v key = Inl (AttributeError (type_name v) ''get'')"

text \<open>\<open>pkg[key]\<close> with a string key: a dict without the key raises \<open>KeyError\<close>.\<close>

fun py_getitem :: "toml \<Rightarrow> string \<Rightarrow> py_exception + toml" where
  "py_getitem (TTable kvs) key =
     (case map_of kvs key of None \<Rightarrow> Inl (KeyError key) | Some v \<Rightarrow> Inr v)"
| "py_getitem v key = Inl (TypeError (type_name v))"

text \<open>
  The list comprehension
  \<open>[pkg["version"] for pkg in packages if pkg.get("name") == "component-runtime"]\<close>,
  over the elements of \<open>packages\<close> in order.
\<close>

fun select_versions :: "toml list \<Rightarrow> py_exception + toml list" where
  "select_versions [] = Inr []"
| "select_versions (pkg # pkgs) =
     (case py_get pkg ''name'' of
        Inl e \<Rightarrow> Inl e
      | Inr nm \<Rightarrow>
          if nm = Some (TStr ''component-runtime'')
          then (case py_getitem pkg ''version'' of
                  Inl e \<Rightarrow> Inl e
                | Inr v \<Rightarrow>
                    (case select_versions pkgs of Inl e \<Rightarrow> Inl e | Inr vs \<Rightarrow> Inr (v # vs)))
          else select_versions pkgs)"

definition comp_versions :: "toml \<Rightarrow> py_exception + toml list" where
  "comp_versions packages =
     (case py_iter packages of Inl e \<Rightarrow> Inl e | Inr pkgs \<Rightarrow> select_versions pkgs)"

text \<open>
  \<open>max(parse_version(ver) for ver in comp_versions)\<close>: \<open>max\<close> keeps the first item and
  replaces it by each later item that is greater; each item is parsed when \<open>max\<close> asks
  for it, so the first version that fails to parse ends the loop.
\<close>

fun max_from :: "int list \<Rightarrow> toml list \<Rightarrow> py_exception + int list" where
  "max_from m [] = Inr m"
| "max_from m (ver # vers) =
     (case parse_version_of ver of
        Inl e \<Rightarrow> Inl e
      | Inr t \<Rightarrow> max_from (if tuple_richcompare Gt t m then t else m) vers)"

definition max_version :: "toml \<Rightarrow> toml list \<Rightarrow> py_exception + int list" where
  "max_version ver vers =
     (case parse_version_of ver of Inl e \<Rightarrow> Inl e | Inr t \<Rightarrow> max_from t vers)"

text \<open>
  The state of the working directory. For \<open>Cargo.lock\<close>: it does not exist; or it
  exists and \<open>read_text\<close> fails; or \<open>tomllib.loads\<close> rejects its text; or
  \<open>tomllib.loads\<close> returns a dict. For \<open>Cargo.toml\<close>: what \<open>read_text\<close> gives.
\<close>

datatype lock_state =
    Missing
  | Unreadable read_error
  | Malformed string
  | Parsed "(string \<times> toml) list"

record env =
  lock_path :: lock_state
  cargo_toml :: "read_error + string"

definition not_found_msg :: string where
  "not_found_msg = ''Cargo.lock not found; skipping compat shim check''"

definition not_in_lock_msg :: string where
  "not_in_lock_msg = ''component-runtime is not in Cargo.lock; skipping compat shim check''"

definition drop_shim_msg :: "int list \<Rightarrow> string" where
  "drop_shim_msg version =
     ''component-runtime has reached '' @ str_join ''.'' (map str_int version)
     @ '' but greentic-types-compat is still present.'' @ [CHR 0x0A]
     @ ''Please drop the compat shim and migrate to greentic-types 0.3+ throughout.''"

text \<open>
  \<open>main()\<close>: the texts printed, one per call of \<open>print\<close>, and the value returned or
  the exception raised.
\<close>

definition main :: "env \<Rightarrow> string list \<times> (py_exception + int)" where
  "main e =
     (case lock_path e of
        Missing \<Rightarrow> ([not_found_msg], Inr 0)
      | Unreadable err \<Rightarrow> ([], Inl (ReadError err))
      | Malformed msg \<Rightarrow> ([], Inl (TOMLDecodeError msg))
      | Parsed data \<Rightarrow>
          (case comp_versions (case map_of data ''package'' of None \<Rightarrow> TArr [] | Some v \<Rightarrow> v) of
             Inl exc \<Rightarrow> ([], Inl exc)
           | Inr [] \<Rightarrow> ([not_in_lock_msg], Inr 0)
           | Inr (ver # vers) \<Rightarrow>
               (case max_version ver vers of
                  Inl exc \<Rightarrow> ([], Inl exc)
                | Inr version \<Rightarrow>
                    (case cargo_toml e of
                       Inl err \<Rightarrow> ([], Inl (ReadError err))
                     | Inr text \<Rightarrow>
                         (let compat_present = sublist ''greentic-types-compat'' text
                          in if tuple_richcompare Ge version MIN_VERSION \<and> compat_present
                             then ([drop_shim_msg version], Inr 1)
                             else ([], Inr 0))))))"

text \<open>
  \<open>sys.exit(main())\<close> at the bottom of the script, and what the interpreter does with
  the outcome: the integer returned is the exit status; a \<open>SystemExit\<close> with a message
  writes the message to the error stream and the status is 1; any other exception writes
  a traceback and the status is 1.
\<close>

datatype stderr_out = Silent | Message string | Traceback py_exception

record process =
  exit_status :: int
  stdout :: "string list"
  stderr :: stderr_out

definition run :: "env \<Rightarrow> process" where
  "run e =
     (case main e of
        (out, Inr code) \<Rightarrow> \<lparr>exit_status = code, stdout = out, stderr = Silent\<rparr>
      | (out, Inl (SystemExit msg)) \<Rightarrow> \<lparr>exit_status = 1, stdout = out, stderr = Message msg\<rparr>
      | (out, Inl exc) \<Rightarrow> \<lparr>exit_status = 1, stdout = out, stderr = Traceback exc\<rparr>)"

subsection \<open>What the lock file lists\<close>

text \<open>
  The terms in which the properties are stated. A lock file is a collection of package
  records: its key \<open>package\<close>, when present, holds a list of dicts. A record is
  \<^emph>\<open>watched\<close> when its \<open>name\<close> is the string \<open>component-runtime\<close>.
  \<open>lists_watched data vs\<close> says that the watched records of the lock file carry, in
  order, the version strings \<open>vs\<close>.
\<close>

definition field :: "string \<Rightarrow> toml \<Rightarrow> toml option" where
  "field key pkg = (case pkg of TTable kvs \<Rightarrow> map_of kvs key | _ \<Rightarrow> None)"

definition is_table :: "toml \<Rightarrow> bool" where
  "is_table v = (case v of TTable _ \<Rightarrow> True | _ \<Rightarrow> False)"

definition is_watched :: "toml \<Rightarrow> bool" where
  "is_watched pkg \<longleftrightarrow> field ''name'' pkg = Some (TStr ''component-runtime'')"

definition package_records :: "(string \<times> toml) list \<Rightarrow> toml list option" where
  "package_records data =
     (case map_of data ''package'' of
        None \<Rightarrow> Some []
      | Some (TArr pkgs) \<Rightarrow> if list_all is_table pkgs then Some pkgs else None
      | Some _ \<Rightarrow> None)"

definition lists_watched :: "(string \<times> toml) list \<Rightarrow> string list \<Rightarrow> bool" where
  "lists_watched data vs \<longleftrightarrow>
     (case package_records data of
        None \<Rightarrow> False
      | Some pkgs \<Rightarrow>
          map (field ''version'') (filter is_watched pkgs) = map (\<lambda>v. Some (TStr v)) vs)"

text \<open>A version string is malformed when \<open>int\<close> rejects one of its pieces.\<close>

definition malformed :: "string \<Rightarrow> bool" where
  "malformed v \<longleftrightarrow> list_ex (\<lambda>p. py_int p = None) (str_split CHR ''.'' v)"




text \<open>
  A lock file as Cargo writes it, for the examples: a format version, one package that
  is not watched, and one record of the watched package for each version string given.
\<close>

definition sample_lock :: "string list \<Rightarrow> (string \<times> toml) list" where
  "sample_lock vs =
     [(''version'', TInt 3),
      (''package'',
         TArr (TTable [(''name'', TStr ''serde''), (''version'', TStr ''1.0.0'')]
               # map (\<lambda>v. TTable [(''name'', TStr ''component-runtime''), (''version'', TStr v),
                                  (''source'', TStr ''registry'')]) vs))]"

section \<open>Properties\<close>

subsection \<open>Splitting and joining\<close>

lemma split_from_ne: "split_from sep cur s \<noteq> []"
  by (induction s arbitrary: cur) auto




lemma str_join_split: "str_join [sep] (str_split sep s) = s"
proof -
  have "str_join [sep] (split_from sep cur s) = rev cur @ s" for cur s
  proof (induction s arbitrary: cur)
    case Nil show ?case by simp
  next
    case (Cons c s)
    show ?case
    proof (cases "c = sep")
      case True
      obtain w ws where "split_from sep [] s = w # ws" using split_from_ne by (cases "split_from sep [] s") auto
      with Cons[of "[]"] True show ?thesis by simp
    next
      case False with Cons show ?thesis by simp
    qed
  qed
  then show ?thesis by (simp add: str_split_def)
qed







lemma Nil_less_iff: "[] < (ys :: int list) \<longleftrightarrow> ys \<noteq> []"
  by (cases ys) auto


lemma tuple_gt_iff: "tuple_richcompare Gt xs ys \<longleftrightarrow> ys < xs"
  by (induction Gt xs ys rule: tuple_richcompare.induct) (auto simp: Nil_less_iff)


lemma tuple_ge_iff: "tuple_richcompare Ge xs ys \<longleftrightarrow> ys \<le> xs"
  by (induction Ge xs ys rule: tuple_richcompare.induct) (auto simp: list_le_def Nil_less_iff)





subsection \<open>Parsing, selecting and the maximum\<close>

lemma int_parts_ok: "list_all (\<lambda>p. py_int p \<noteq> None) ps \<Longrightarrow> int_parts ps = Inr (map (\<lambda>p. the (py_int p)) ps)"
  by (induction ps) auto

lemma int_parts_bad: "find (\<lambda>p. py_int p = None) ps = Some p \<Longrightarrow> int_parts ps = Inl (ValueError (int_error_text p))"
  by (induction ps) (auto split: if_splits)

lemma int_parts_Inr_iff: "int_parts ps = Inr ns \<longleftrightarrow> map py_int ps = map Some ns"
proof (induction ps arbitrary: ns)
  case Nil show ?case by auto
next
  case (Cons p ps)
  show ?case
  proof (cases "py_int p")
    case None then show ?thesis by (cases ns) auto
  next
    case (Some n)
    show ?thesis
    proof (cases ns)
      case Nil with Some show ?thesis by (simp split: sum.splits)
    next
      case (Cons k ks)
      with Some Cons.IH[of ks] show ?thesis by (auto split: sum.splits)
    qed
  qed
qed

lemma parse_version_ok: "\<not> malformed v \<Longrightarrow> parse_version v = Inr (map (\<lambda>p. the (py_int p)) (str_split CHR ''.'' v))"
  using int_parts_ok[of "str_split CHR ''.'' v"]
  by (simp add: parse_version_def malformed_def list_ex_iff list_all_iff)

lemma parse_version_bad: "find (\<lambda>p. py_int p = None) (str_split CHR ''.'' v) = Some p \<Longrightarrow> parse_version v = Inl (SystemExit (unable_msg v (int_error_text p)))"
  by (simp add: parse_version_def int_parts_bad)

lemma malformed_find: "malformed v \<Longrightarrow> \<exists>p. find (\<lambda>p. py_int p = None) (str_split CHR ''.'' v) = Some p"
  by (cases "find (\<lambda>p. py_int p = None) (str_split CHR ''.'' v)") (auto simp: malformed_def list_ex_iff find_None_iff)

lemma parse_version_Inr_iff: "parse_version v = Inr ns \<longleftrightarrow> map py_int (str_split CHR ''.'' v) = map Some ns"
  using int_parts_Inr_iff[of "str_split CHR ''.'' v" ns]
  by (auto simp: parse_version_def split: sum.splits py_exception.splits)

lemma parse_version_Inr_not_malformed: "parse_version v = Inr ns \<Longrightarrow> \<not> malformed v"
proof -
  assume "parse_version v = Inr ns"
  then have eq: "map py_int (str_split CHR ''.'' v) = map Some ns" by (simp add: parse_version_Inr_iff)
  have "py_int p \<noteq> None" if "p \<in> set (str_split CHR ''.'' v)" for p
  proof -
    from that have "py_int p \<in> set (map py_int (str_split CHR ''.'' v))" by simp
    then have "py_int p \<in> set (map Some ns)" by (simp only: eq)
    then show ?thesis by auto
  qed
  then show ?thesis by (auto simp: malformed_def list_ex_iff)
qed

lemma sublist_unable_msg: "sublist v (unable_msg v exc)"
proof -
  have "unable_msg v exc =
      (''unable to parse component-runtime version '' @ [CHR 0x27]) @ v @ ([CHR 0x27] @ '': '' @ exc)"
    by (simp add: unable_msg_def)
  then show ?thesis by (simp only: sublist_appendI)
qed

lemma select_versions_tables:
  "list_all is_table pkgs \<Longrightarrow> map (field ''version'') (filter is_watched pkgs) = map (\<lambda>v. Some (TStr v)) vs
   \<Longrightarrow> select_versions pkgs = Inr (map TStr vs)"
proof (induction pkgs arbitrary: vs)
  case Nil then show ?case by simp
next
  case (Cons pkg pkgs)
  from Cons.prems(1) obtain kvs where pkg: "pkg = TTable kvs" by (cases pkg) (auto simp: is_table_def)
  show ?case
  proof (cases "is_watched pkg")
    case True
    with Cons.prems(2) obtain v vs' where vs: "vs = v # vs'" and v: "field ''version'' pkg = Some (TStr v)"
      and rest: "map (field ''version'') (filter is_watched pkgs) = map (\<lambda>v. Some (TStr v)) vs'"
      by (cases vs) auto
    from Cons.IH[OF _ rest] Cons.prems(1) have "select_versions pkgs = Inr (map TStr vs')" by simp
    with True v vs pkg show ?thesis by (simp add: is_watched_def field_def)
  next
    case False
    with Cons.IH[of vs] Cons.prems pkg show ?thesis by (simp add: is_watched_def field_def)
  qed
qed

lemma comp_versions_lists:
  "lists_watched data vs \<Longrightarrow>
   comp_versions (case map_of data ''package'' of None \<Rightarrow> TArr [] | Some v \<Rightarrow> v) = Inr (map TStr vs)"
  by (auto simp: lists_watched_def package_records_def comp_versions_def select_versions_tables
           split: option.splits toml.splits if_splits)

lemma lists_watched_sample: "lists_watched (sample_lock vs) vs"
proof -
  let ?r = "\<lambda>v. TTable [(''name'', TStr ''component-runtime''), (''version'', TStr v), (''source'', TStr ''registry'')]"
  have a: "list_all is_table (map ?r vs)" by (induction vs) (simp_all add: is_table_def)
  have b: "map (field ''version'') (filter is_watched (map ?r vs)) = map (\<lambda>v. Some (TStr v)) vs"
    by (induction vs) (simp_all add: is_watched_def field_def)
  show ?thesis
    using a b by (simp add: lists_watched_def package_records_def sample_lock_def is_table_def is_watched_def field_def)
qed

lemma max_from_ok: "map parse_version vs = map Inr ts \<Longrightarrow> max_from m (map TStr vs) = Inr (Max (set (m # ts)))"
proof (induction vs arbitrary: m ts)
  case Nil then show ?case by simp
next
  case (Cons v vs)
  then obtain t ts' where ts: "ts = t # ts'" and t: "parse_version v = Inr t" and r: "map parse_version vs = map Inr ts'"
    by (cases ts) auto
  have "max_from m (map TStr (v # vs)) = max_from (max m t) (map TStr vs)"
    using t by (cases "m < t") (auto simp: tuple_gt_iff max_def not_less)
  also have "\<dots> = Inr (Max (set (max m t # ts')))" by (rule Cons.IH[OF r])
  also have "Max (set (max m t # ts')) = Max (set (m # ts))"
    unfolding ts by (cases "ts' = []") (simp_all add: max.assoc)
  finally show ?case .
qed

lemma max_version_ok: "map parse_version (v # vs) = map Inr ts \<Longrightarrow> max_version (TStr v) (map TStr vs) = Inr (Max (set ts))"
proof -
  assume a: "map parse_version (v # vs) = map Inr ts"
  then obtain t ts' where ts: "ts = t # ts'" and t: "parse_version v = Inr t" and r: "map parse_version vs = map Inr ts'"
    by (cases ts) auto
  show ?thesis using max_from_ok[OF r, of t] t ts by (simp add: max_version_def)
qed

lemma malformed_parse:
  assumes "malformed v"
  shows "\<exists>p. find (\<lambda>p. py_int p = None) (str_split CHR ''.'' v) = Some p
           \<and> parse_version v = Inl (SystemExit (unable_msg v (int_error_text p)))"
  using malformed_find[OF assms] parse_version_bad[of v] by blast

lemma max_from_bad: "find malformed vs = Some v \<Longrightarrow> max_from m (map TStr vs) = parse_version v"
proof (induction vs arbitrary: m)
  case Nil then show ?case by simp
next
  case (Cons a vs)
  show ?case
  proof (cases "malformed a")
    case True
    with Cons.prems have "a = v" by simp
    with True malformed_parse[of v] show ?thesis by auto
  next
    case False
    with Cons.prems have "find malformed vs = Some v" by simp
    from Cons.IH[OF this] parse_version_ok[OF False] show ?thesis by simp
  qed
qed

lemma max_version_bad:
  assumes "find malformed (a # vs) = Some v"
  shows "max_version (TStr a) (map TStr vs) = parse_version v"
proof (cases "malformed a")
  case True
  with assms have "a = v" by simp
  with True malformed_parse[of v] show ?thesis by (auto simp: max_version_def)
next
  case False
  with assms have "find malformed vs = Some v" by simp
  from max_from_bad[OF this] parse_version_ok[OF False] show ?thesis by (simp add: max_version_def)
qed

subsection \<open>The three ways through \<open>main\<close> after the lock file is read\<close>

lemma main_none:
  assumes "lock_path e = Parsed data" "lists_watched data []"
  shows "main e = ([not_in_lock_msg], Inr 0)"
  using assms comp_versions_lists[OF assms(2)] by (simp add: main_def)

lemma main_ok:
  assumes "lock_path e = Parsed data" "lists_watched data vs" "vs \<noteq> []"
    and "map parse_version vs = map Inr ts"
  shows "main e =
     (case cargo_toml e of
        Inl err \<Rightarrow> ([], Inl (ReadError err))
      | Inr text \<Rightarrow>
          if MIN_VERSION \<le> Max (set ts) \<and> sublist ''greentic-types-compat'' text
          then ([drop_shim_msg (Max (set ts))], Inr 1)
          else ([], Inr 0))"
proof -
  from assms(3) obtain v vs' where vs: "vs = v # vs'" by (cases vs) auto
  have mv: "max_version (TStr v) (map TStr vs') = Inr (Max (set ts))"
    using max_version_ok[of v vs' ts] assms(4) vs by simp
  show ?thesis
    using assms(1) comp_versions_lists[OF assms(2)] vs mv
    by (simp add: main_def tuple_ge_iff split: sum.splits)
qed

lemma main_bad:
  assumes "lock_path e = Parsed data" "lists_watched data vs" "find malformed vs = Some v"
  shows "\<exists>msg. parse_version v = Inl (SystemExit msg) \<and> main e = ([], Inl (SystemExit msg))"
proof -
  from assms(3) obtain a vs' where vs: "vs = a # vs'" by (cases vs) auto
  from assms(3) have "malformed v" by (auto simp: find_Some_iff)
  from malformed_parse[OF this] obtain msg where msg: "parse_version v = Inl (SystemExit msg)" by blast
  from max_version_bad[of a vs' v] assms(3) vs
  have "max_version (TStr a) (map TStr vs') = parse_version v" by simp
  then have "main e = ([], Inl (SystemExit msg))"
    using assms(1) comp_versions_lists[OF assms(2)] vs msg
    by (simp add: main_def)
  with msg show ?thesis by blast
qed

subsection \<open>Evaluations used in the examples\<close>

lemma parse_040: "parse_version ''0.4.0'' = Inr [0, 4, 0]" by code_simp
lemma parse_039: "parse_version ''0.3.9'' = Inr [0, 3, 9]" by code_simp
lemma parse_041: "parse_version ''0.4.1'' = Inr [0, 4, 1]" by code_simp
lemma parse_neg: "parse_version ''0.-1.0'' = Inr [0, - 1, 0]" by code_simp
lemma malformed_0x0: "malformed ''0.x.0''" by code_simp
lemma malformed_039: "\<not> malformed ''0.3.9''" by code_simp
lemma marker_in: "sublist ''greentic-types-compat'' ''greentic-types-compat = { path = 1 }''" by code_simp
lemma msg_041: "drop_shim_msg [0, 4, 1] = ''component-runtime has reached 0.4.1 but greentic-types-compat is still present.'' @ [CHR 0x0A] @ ''Please drop the compat shim and migrate to greentic-types 0.3+ throughout.''"
  by code_simp
lemma le1: "MIN_VERSION \<le> [0,4,1]" by (simp add: MIN_VERSION_def list_le_def)
lemma parse_0x0: "parse_version ''0.x.0'' = Inl (SystemExit (''unable to parse component-runtime version '' @ [CHR 0x27] @ ''0.x.0'' @ [CHR 0x27] @ '': invalid literal for int() with base 10: '' @ [CHR 0x27] @ ''x'' @ [CHR 0x27]))"
  by code_simp

lemma msg_040: "drop_shim_msg [0, 4, 0] = ''component-runtime has reached 0.4.0 but greentic-types-compat is still present.'' @ [CHR 0x0A] @ ''Please drop the compat shim and migrate to greentic-types 0.3+ throughout.''"
  by code_simp

lemma Max_single_value: "xs \<noteq> [] \<Longrightarrow> Max (set (map (\<lambda>_. c) xs)) = (c :: int list)"
proof -
  assume "xs \<noteq> []"
  then have "set (map (\<lambda>_. c) xs) = {c}" by (cases xs) auto
  then show ?thesis by simp
qed








section \<open>The claims\<close>

text \<open>
  C1. When the lock file exists and lists the watched dependency, every version string
  of its records parses, and the manifest is read, the exit status is 1 exactly when the
  greatest parsed version is at or above the threshold in the lexicographic order and the
  manifest text contains \<open>greentic-types-compat\<close>; in every other case it is 0.
\<close>

theorem exit_status_decision:
  assumes "lock_path e = Parsed data" and "lists_watched data vs" and "vs \<noteq> []"
    and "map parse_version vs = map Inr ts" and "cargo_toml e = Inr text"
  shows "(exit_status (run e) = 1 \<longleftrightarrow>
            MIN_VERSION \<le> Max (set ts) \<and> sublist ''greentic-types-compat'' text)
       \<and> (exit_status (run e) = 0 \<longleftrightarrow>
            \<not> (MIN_VERSION \<le> Max (set ts) \<and> sublist ''greentic-types-compat'' text))"
  using main_ok[OF assms(1-4)] assms(5) by (simp add: run_def)

theorem exit_status_decision_witness:
  "lists_watched (sample_lock [''0.3.9'', ''0.4.1'']) [''0.3.9'', ''0.4.1'']
   \<and> map parse_version [''0.3.9'', ''0.4.1''] = map Inr [[0, 3, 9], [0, 4, 1]]
   \<and> exit_status (run \<lparr>lock_path = Parsed (sample_lock [''0.3.9'', ''0.4.1'']),
                      cargo_toml = Inr ''greentic-types-compat = { path = 1 }''\<rparr>) = 1
   \<and> exit_status (run \<lparr>lock_path = Parsed (sample_lock [''0.3.9'']),
                      cargo_toml = Inr ''greentic-types-compat = { path = 1 }''\<rparr>) = 0"
proof -
  let ?text = "''greentic-types-compat = { path = 1 }''"
  let ?e = "\<lparr>lock_path = Parsed (sample_lock [''0.3.9'', ''0.4.1'']), cargo_toml = Inr ?text\<rparr>"
  let ?f = "\<lparr>lock_path = Parsed (sample_lock [''0.3.9'']), cargo_toml = Inr ?text\<rparr>"
  have p: "map parse_version [''0.3.9'', ''0.4.1''] = map Inr [[0, 3, 9], [0, 4, 1]]"
    by (simp add: parse_039 parse_041)
  have q: "map parse_version [''0.3.9''] = map Inr [[0, 3, 9]]"
    by (simp add: parse_039)
  have "exit_status (run ?e) = 1"
    using exit_status_decision[of ?e "sample_lock [''0.3.9'', ''0.4.1'']" "[''0.3.9'', ''0.4.1'']"
        "[[0, 3, 9], [0, 4, 1]]" ?text] lists_watched_sample p marker_in
    by (simp add: MIN_VERSION_def list_le_def)
  moreover have "exit_status (run ?f) = 0"
    using exit_status_decision[of ?f "sample_lock [''0.3.9'']" "[''0.3.9'']" "[[0, 3, 9]]" ?text]
      lists_watched_sample q
    by (simp add: MIN_VERSION_def list_le_def)
  ultimately show ?thesis using lists_watched_sample p by simp
qed

text \<open>
  C2. The threshold is the tuple \<open>(0, 4, 0)\<close>. When the lock file lists the watched
  dependency only at version \<open>0.4.0\<close> and the manifest text contains the marker, the
  exit status is 1 and the one text printed tells that the shim is to be dropped.
\<close>

theorem threshold_040:
  assumes "lock_path e = Parsed data" and "lists_watched data vs" and "vs \<noteq> []"
    and "set vs \<subseteq> {''0.4.0''}" and "cargo_toml e = Inr text"
    and "sublist ''greentic-types-compat'' text"
  shows "MIN_VERSION = [0, 4, 0]
       \<and> run e = \<lparr>exit_status = 1,
                   stdout = [''component-runtime has reached 0.4.0 but greentic-types-compat is still present.''
                             @ [CHR 0x0A]
                             @ ''Please drop the compat shim and migrate to greentic-types 0.3+ throughout.''],
                   stderr = Silent\<rparr>"
proof -
  have p: "map parse_version vs = map Inr (map (\<lambda>_. [0, 4, 0]) vs)"
    using assms(4) by (auto simp: parse_040)
  have m: "Max (set (map (\<lambda>_. [0, 4, 0]) vs)) = ([0, 4, 0] :: int list)"
    using assms(3) by (rule Max_single_value)
  show ?thesis
    using main_ok[OF assms(1-3) p] assms(5,6) m msg_040
    by (simp add: run_def MIN_VERSION_def)
qed

theorem threshold_040_witness:
  "lists_watched (sample_lock [''0.4.0'']) [''0.4.0'']
   \<and> sublist ''greentic-types-compat'' ''greentic-types-compat = { path = 1 }''
   \<and> run \<lparr>lock_path = Parsed (sample_lock [''0.4.0'']),
           cargo_toml = Inr ''greentic-types-compat = { path = 1 }''\<rparr>
     = \<lparr>exit_status = 1,
        stdout = [''component-runtime has reached 0.4.0 but greentic-types-compat is still present.''
                  @ [CHR 0x0A]
                  @ ''Please drop the compat shim and migrate to greentic-types 0.3+ throughout.''],
        stderr = Silent\<rparr>"
  using threshold_040[of "\<lparr>lock_path = Parsed (sample_lock [''0.4.0'']),
           cargo_toml = Inr ''greentic-types-compat = { path = 1 }''\<rparr>" "sample_lock [''0.4.0'']"
           "[''0.4.0'']" "''greentic-types-compat = { path = 1 }''"]
    lists_watched_sample[of "[''0.4.0'']"] marker_in
  by simp

text \<open>
  C3. A version string with a piece that \<open>int\<close> rejects makes \<open>parse_version\<close> raise
  \<open>SystemExit\<close> with a message that contains the version string. In a run, the first such
  version string among the records of the watched dependency ends the run during parsing:
  nothing is printed, the manifest is not read, the exit status is 1 and the message on
  the error stream contains that version string. So whenever some record of the watched
  dependency has such a version string, the run ends in this way, and the message names
  the first of them.
\<close>

theorem malformed_version_aborts:
  "(malformed v \<longrightarrow>
      (\<exists>p. find (\<lambda>p. py_int p = None) (str_split CHR ''.'' v) = Some p
         \<and> parse_version v = Inl (SystemExit (unable_msg v (int_error_text p)))
         \<and> sublist v (unable_msg v (int_error_text p))))
   \<and> (lock_path e = Parsed data \<and> lists_watched data vs \<and> find malformed vs = Some v \<longrightarrow>
      (\<exists>msg. parse_version v = Inl (SystemExit msg) \<and> sublist v msg
         \<and> run e = \<lparr>exit_status = 1, stdout = [], stderr = Message msg\<rparr>))
   \<and> (lock_path e = Parsed data \<and> lists_watched data vs \<and> v \<in> set vs \<and> malformed v \<longrightarrow>
      (\<exists>w msg. find malformed vs = Some w \<and> sublist w msg
         \<and> run e = \<lparr>exit_status = 1, stdout = [], stderr = Message msg\<rparr>))"
proof (intro conjI impI)
  assume "malformed v"
  from malformed_parse[OF this] sublist_unable_msg
  show "\<exists>p. find (\<lambda>p. py_int p = None) (str_split CHR ''.'' v) = Some p
         \<and> parse_version v = Inl (SystemExit (unable_msg v (int_error_text p)))
         \<and> sublist v (unable_msg v (int_error_text p))" by blast
next
  assume a: "lock_path e = Parsed data \<and> lists_watched data vs \<and> find malformed vs = Some v"
  then have mv: "malformed v" by (auto simp: find_Some_iff)
  from a main_bad[of e data vs v] obtain msg where
    msg: "parse_version v = Inl (SystemExit msg)" and m: "main e = ([], Inl (SystemExit msg))" by blast
  from malformed_parse[OF mv] msg sublist_unable_msg have "sublist v msg" by auto
  with msg m show "\<exists>msg. parse_version v = Inl (SystemExit msg) \<and> sublist v msg
         \<and> run e = \<lparr>exit_status = 1, stdout = [], stderr = Message msg\<rparr>"
    by (auto simp: run_def)
next
  assume a: "lock_path e = Parsed data \<and> lists_watched data vs \<and> v \<in> set vs \<and> malformed v"
  then obtain w where w: "find malformed vs = Some w"
    by (cases "find malformed vs") (auto simp: find_None_iff)
  then have mw: "malformed w" by (auto simp: find_Some_iff)
  from a w main_bad[of e data vs w] obtain msg where
    msg: "parse_version w = Inl (SystemExit msg)" and m: "main e = ([], Inl (SystemExit msg))" by blast
  from malformed_parse[OF mw] msg sublist_unable_msg have "sublist w msg" by auto
  with w m show "\<exists>w msg. find malformed vs = Some w \<and> sublist w msg
         \<and> run e = \<lparr>exit_status = 1, stdout = [], stderr = Message msg\<rparr>"
    by (auto simp: run_def)
qed

theorem malformed_version_aborts_witness:
  "malformed ''0.x.0''
   \<and> find malformed [''0.3.9'', ''0.x.0'', ''0.4.1''] = Some ''0.x.0''
   \<and> run \<lparr>lock_path = Parsed (sample_lock [''0.3.9'', ''0.x.0'', ''0.4.1'']),
           cargo_toml = Inl FileNotFoundError\<rparr>
     = \<lparr>exit_status = 1, stdout = [],
        stderr = Message (''unable to parse component-runtime version '' @ [CHR 0x27] @ ''0.x.0''
                          @ [CHR 0x27] @ '': invalid literal for int() with base 10: ''
                          @ [CHR 0x27] @ ''x'' @ [CHR 0x27])\<rparr>"
proof -
  let ?e = "\<lparr>lock_path = Parsed (sample_lock [''0.3.9'', ''0.x.0'', ''0.4.1'']),
           cargo_toml = Inl FileNotFoundError\<rparr>"
  have f: "find malformed [''0.3.9'', ''0.x.0'', ''0.4.1''] = Some ''0.x.0''"
    by (simp add: malformed_039 malformed_0x0)
  from malformed_version_aborts[of "''0.x.0''" ?e "sample_lock [''0.3.9'', ''0.x.0'', ''0.4.1'']"
      "[''0.3.9'', ''0.x.0'', ''0.4.1'']"] lists_watched_sample f
  have "\<exists>msg. parse_version ''0.x.0'' = Inl (SystemExit msg)
         \<and> run ?e = \<lparr>exit_status = 1, stdout = [], stderr = Message msg\<rparr>" by auto
  then show ?thesis using f malformed_0x0 by (auto simp: parse_0x0)
qed

text \<open>
  C4. When the lock file does not exist, the run prints that it was not found and the
  exit status is 0, whatever the manifest is, readable or not.
\<close>

theorem missing_lock_file:
  "lock_path e = Missing \<longrightarrow>
     run e = \<lparr>exit_status = 0,
              stdout = [''Cargo.lock not found; skipping compat shim check''],
              stderr = Silent\<rparr>
     \<and> (\<forall>manifest. run (e\<lparr>cargo_toml := manifest\<rparr>) = run e)"
  by (simp add: run_def main_def not_found_msg_def)

theorem missing_lock_file_witness:
  "run \<lparr>lock_path = Missing, cargo_toml = Inl PermissionError\<rparr>
     = \<lparr>exit_status = 0, stdout = [''Cargo.lock not found; skipping compat shim check''],
        stderr = Silent\<rparr>
   \<and> run \<lparr>lock_path = Missing, cargo_toml = Inr ''greentic-types-compat''\<rparr>
     = run \<lparr>lock_path = Missing, cargo_toml = Inl PermissionError\<rparr>"
proof -
  let ?e = "\<lparr>lock_path = Missing, cargo_toml = Inl PermissionError\<rparr>"
  have h: "lock_path ?e = Missing" by simp
  note r = missing_lock_file[of ?e, THEN mp, OF h]
  have a: "run ?e = \<lparr>exit_status = 0, stdout = [''Cargo.lock not found; skipping compat shim check''],
        stderr = Silent\<rparr>"
    by (rule r[THEN conjunct1])
  have "run (?e\<lparr>cargo_toml := Inr ''greentic-types-compat''\<rparr>) = run ?e"
    by (rule r[THEN conjunct2, THEN spec])
  with a show ?thesis by simp
qed

text \<open>
  C5. When the lock file is a collection of package records none of which is named
  \<open>component-runtime\<close>, the run prints that the dependency is not in the lock file and
  the exit status is 0, whatever the manifest is.
\<close>

theorem dependency_not_listed:
  assumes "lock_path e = Parsed data" and "package_records data = Some pkgs"
    and "filter is_watched pkgs = []"
  shows "run e = \<lparr>exit_status = 0,
                  stdout = [''component-runtime is not in Cargo.lock; skipping compat shim check''],
                  stderr = Silent\<rparr>
       \<and> (\<forall>manifest. run (e\<lparr>cargo_toml := manifest\<rparr>) = run e)"
proof -
  have l: "lists_watched data []" using assms(2,3) by (simp add: lists_watched_def)
  have "main e' = ([not_in_lock_msg], Inr 0)" if "lock_path e' = Parsed data" for e'
    using main_none[OF that l] .
  then show ?thesis using assms(1) by (simp add: run_def not_in_lock_msg_def)
qed

theorem dependency_not_listed_witness:
  "package_records (sample_lock []) = Some [TTable [(''name'', TStr ''serde''), (''version'', TStr ''1.0.0'')]]
   \<and> filter is_watched [TTable [(''name'', TStr ''serde''), (''version'', TStr ''1.0.0'')]] = []
   \<and> run \<lparr>lock_path = Parsed (sample_lock []), cargo_toml = Inr ''greentic-types-compat''\<rparr>
     = \<lparr>exit_status = 0,
        stdout = [''component-runtime is not in Cargo.lock; skipping compat shim check''],
        stderr = Silent\<rparr>"
proof -
  have a: "package_records (sample_lock []) = Some [TTable [(''name'', TStr ''serde''), (''version'', TStr ''1.0.0'')]]"
    by (simp add: package_records_def sample_lock_def is_table_def)
  have b: "filter is_watched [TTable [(''name'', TStr ''serde''), (''version'', TStr ''1.0.0'')]] = []"
    by (simp add: is_watched_def field_def)
  show ?thesis
    using dependency_not_listed[of "\<lparr>lock_path = Parsed (sample_lock []), cargo_toml = Inr ''greentic-types-compat''\<rparr>"
        "sample_lock []", OF _ a b] a b
    by simp
qed

text \<open>
  C6. When the lock file has several records of the watched dependency, each version is
  parsed and the greatest tuple, in the lexicographic order, is the one compared with the
  threshold. With the versions \<open>0.3.9\<close> and \<open>0.4.1\<close> and the marker in the manifest,
  the version selected is \<open>(0, 4, 1)\<close>, the text printed names \<open>0.4.1\<close>, and the exit
  status is 1.
\<close>

theorem maximum_version_selected:
  assumes "lock_path e = Parsed data" and "lists_watched data vs" and "vs \<noteq> []"
    and "map parse_version vs = map Inr ts" and "cargo_toml e = Inr text"
  shows "max_version (TStr (hd vs)) (map TStr (tl vs)) = Inr (Max (set ts))
       \<and> Max (set ts) \<in> set ts \<and> (\<forall>t \<in> set ts. t \<le> Max (set ts))
       \<and> run e = (if MIN_VERSION \<le> Max (set ts) \<and> sublist ''greentic-types-compat'' text
                  then \<lparr>exit_status = 1, stdout = [drop_shim_msg (Max (set ts))], stderr = Silent\<rparr>
                  else \<lparr>exit_status = 0, stdout = [], stderr = Silent\<rparr>)
       \<and> (set vs = {''0.3.9'', ''0.4.1''} \<and> sublist ''greentic-types-compat'' text \<longrightarrow>
            Max (set ts) = [0, 4, 1]
            \<and> run e = \<lparr>exit_status = 1,
                        stdout = [''component-runtime has reached 0.4.1 but greentic-types-compat is still present.''
                                  @ [CHR 0x0A]
                                  @ ''Please drop the compat shim and migrate to greentic-types 0.3+ throughout.''],
                        stderr = Silent\<rparr>)"
proof -
  from assms(3) obtain v vs' where vs: "vs = v # vs'" by (cases vs) auto
  have ne: "ts \<noteq> []" using assms(3,4) by auto
  have 1: "max_version (TStr (hd vs)) (map TStr (tl vs)) = Inr (Max (set ts))"
    using max_version_ok[of v vs' ts] assms(4) vs by simp
  have 2: "Max (set ts) \<in> set ts" using ne by (intro Max_in) simp_all
  have 3: "\<forall>t \<in> set ts. t \<le> Max (set ts)" by simp
  have 4: "run e = (if MIN_VERSION \<le> Max (set ts) \<and> sublist ''greentic-types-compat'' text
                  then \<lparr>exit_status = 1, stdout = [drop_shim_msg (Max (set ts))], stderr = Silent\<rparr>
                  else \<lparr>exit_status = 0, stdout = [], stderr = Silent\<rparr>)"
    using main_ok[OF assms(1-4)] assms(5) by (simp add: run_def)
  have 5: "Max (set ts) = [0, 4, 1]" if s: "set vs = {''0.3.9'', ''0.4.1''}"
  proof -
    have "set (map parse_version vs) = {Inr [0, 3, 9], Inr [0, 4, 1]}"
      using s by (simp add: parse_039 parse_041)
    then have "Inr ` set ts = {Inr [0, 3, 9], Inr [0, 4, 1] :: py_exception + int list}"
      by (simp add: assms(4))
    then have "set ts = {[0, 3, 9], [0, 4, 1]}"
      by (metis (no_types, lifting) image_empty image_insert inj_Inr inj_image_eq_iff)
    then show ?thesis by (simp add: list_le_def)
  qed
  from 1 2 3 4 5 le1 msg_041 show ?thesis by simp
qed

theorem maximum_version_selected_witness:
  "lists_watched (sample_lock [''0.3.9'', ''0.4.1'']) [''0.3.9'', ''0.4.1'']
   \<and> map parse_version [''0.3.9'', ''0.4.1''] = map Inr [[0, 3, 9], [0, 4, 1]]
   \<and> max_version (TStr ''0.3.9'') [TStr ''0.4.1''] = Inr [0, 4, 1]
   \<and> run \<lparr>lock_path = Parsed (sample_lock [''0.3.9'', ''0.4.1'']),
           cargo_toml = Inr ''greentic-types-compat = { path = 1 }''\<rparr>
     = \<lparr>exit_status = 1,
        stdout = [''component-runtime has reached 0.4.1 but greentic-types-compat is still present.''
                  @ [CHR 0x0A]
                  @ ''Please drop the compat shim and migrate to greentic-types 0.3+ throughout.''],
        stderr = Silent\<rparr>"
proof -
  let ?text = "''greentic-types-compat = { path = 1 }''"
  let ?e = "\<lparr>lock_path = Parsed (sample_lock [''0.3.9'', ''0.4.1'']), cargo_toml = Inr ?text\<rparr>"
  have p: "map parse_version [''0.3.9'', ''0.4.1''] = map Inr [[0, 3, 9], [0, 4, 1]]"
    by (simp add: parse_039 parse_041)
  have l: "lists_watched (sample_lock [''0.3.9'', ''0.4.1'']) [''0.3.9'', ''0.4.1'']"
    by (rule lists_watched_sample)
  have h: "lock_path ?e = Parsed (sample_lock [''0.3.9'', ''0.4.1''])" "cargo_toml ?e = Inr ?text"
    by simp_all
  note r = maximum_version_selected[OF h(1) l _ p h(2)]
  have m: "Max (set [[0, 3, 9], [0, 4, 1 :: int]]) = [0, 4, 1]" by (simp add: list_le_def)
  have a: "max_version (TStr ''0.3.9'') [TStr ''0.4.1''] = Inr [0, 4, 1]"
    using r[THEN conjunct1] m by simp
  have "set [''0.3.9'', ''0.4.1''] = {''0.3.9'', ''0.4.1''} \<and> sublist ''greentic-types-compat'' ?text"
    using marker_in by simp
  with r have b: "run ?e = \<lparr>exit_status = 1,
        stdout = [''component-runtime has reached 0.4.1 but greentic-types-compat is still present.''
                  @ [CHR 0x0A]
                  @ ''Please drop the compat shim and migrate to greentic-types 0.3+ throughout.''],
        stderr = Silent\<rparr>" by blast
  from l p a b show ?thesis by blast
qed




text \<open>
  C8. When the lock file lists the watched dependency, every version parses, and reading
  the manifest fails, \<open>main\<close> raises the read error: nothing catches it, nothing is
  printed, and the interpreter ends the run with a traceback and exit status 1.
\<close>

theorem unreadable_manifest_propagates:
  assumes "lock_path e = Parsed data" and "lists_watched data vs" and "vs \<noteq> []"
    and "map parse_version vs = map Inr ts" and "cargo_toml e = Inl err"
  shows "main e = ([], Inl (ReadError err))
       \<and> run e = \<lparr>exit_status = 1, stdout = [], stderr = Traceback (ReadError err)\<rparr>"
  using main_ok[OF assms(1-4)] assms(5) by (simp add: run_def)

theorem unreadable_manifest_propagates_witness:
  "lists_watched (sample_lock [''0.3.9'']) [''0.3.9'']
   \<and> map parse_version [''0.3.9''] = map Inr [[0, 3, 9]]
   \<and> run \<lparr>lock_path = Parsed (sample_lock [''0.3.9'']), cargo_toml = Inl FileNotFoundError\<rparr>
     = \<lparr>exit_status = 1, stdout = [], stderr = Traceback (ReadError FileNotFoundError)\<rparr>"
proof -
  let ?e = "\<lparr>lock_path = Parsed (sample_lock [''0.3.9'']), cargo_toml = Inl FileNotFoundError\<rparr>"
  have p: "map parse_version [''0.3.9''] = map Inr [[0, 3, 9]]" by (simp add: parse_039)
  have l: "lists_watched (sample_lock [''0.3.9'']) [''0.3.9'']" by (rule lists_watched_sample)
  have h: "lock_path ?e = Parsed (sample_lock [''0.3.9''])" "cargo_toml ?e = Inl FileNotFoundError"
    by simp_all
  from unreadable_manifest_propagates[OF h(1) l _ p h(2)] l p show ?thesis by simp
qed

text \<open>
  C9. \<open>parse_version\<close> returns a tuple exactly when \<open>int\<close> accepts every piece, and the
  tuple holds what \<open>int\<close> returns; no sign is checked: \<open>0.-1.0\<close> parses to
  \<open>(0, -1, 0)\<close>.
\<close>

theorem negative_segment_accepted:
  "parse_version ''0.-1.0'' = Inr [0, - 1, 0]
   \<and> (parse_version v = Inr ns \<longleftrightarrow> map py_int (str_split CHR ''.'' v) = map Some ns)"
  using parse_neg parse_version_Inr_iff by simp

theorem negative_segment_accepted_witness:
  "map py_int (str_split CHR ''.'' ''0.-1.0'') = map Some [0, - 1, 0]"
  using negative_segment_accepted[of "''0.-1.0''" "[0, - 1, 0]"] by blast

text \<open>
  C10. A version string that does not parse ends the run with \<open>SystemExit\<close> carrying a
  message, which the interpreter writes to the error stream with exit status 1; a run
  that finds the shim past the threshold returns 1 from \<open>main\<close>. Both runs have exit
  status 1.
\<close>

theorem unparsable_exit_status_same:
  assumes "lock_path e = Parsed data" and "lists_watched data vs" and "find malformed vs = Some v"
    and "lock_path e' = Parsed data'" and "lists_watched data' vs'" and "vs' \<noteq> []"
    and "map parse_version vs' = map Inr ts'" and "cargo_toml e' = Inr text"
    and "MIN_VERSION \<le> Max (set ts')" and "sublist ''greentic-types-compat'' text"
  shows "(\<exists>msg. snd (main e) = Inl (SystemExit msg) \<and> stderr (run e) = Message msg)
       \<and> snd (main e') = Inr 1
       \<and> exit_status (run e) = 1 \<and> exit_status (run e') = 1"
proof -
  from main_bad[OF assms(1-3)] obtain msg where "main e = ([], Inl (SystemExit msg))" by blast
  moreover have "main e' = ([drop_shim_msg (Max (set ts'))], Inr 1)"
    using main_ok[OF assms(4-7)] assms(8-10) by simp
  ultimately show ?thesis by (simp add: run_def)
qed

theorem unparsable_exit_status_same_witness:
  "find malformed [''0.x.0''] = Some ''0.x.0''
   \<and> MIN_VERSION \<le> Max (set [[0, 4, 1]])
   \<and> exit_status (run \<lparr>lock_path = Parsed (sample_lock [''0.x.0'']), cargo_toml = Inr []\<rparr>) = 1
   \<and> exit_status (run \<lparr>lock_path = Parsed (sample_lock [''0.4.1'']),
                        cargo_toml = Inr ''greentic-types-compat = { path = 1 }''\<rparr>) = 1"
proof -
  let ?text = "''greentic-types-compat = { path = 1 }''"
  let ?e = "\<lparr>lock_path = Parsed (sample_lock [''0.x.0'']), cargo_toml = Inr []\<rparr>"
  let ?f = "\<lparr>lock_path = Parsed (sample_lock [''0.4.1'']), cargo_toml = Inr ?text\<rparr>"
  have f: "find malformed [''0.x.0''] = Some ''0.x.0''" by (simp add: malformed_0x0)
  have p: "map parse_version [''0.4.1''] = map Inr [[0, 4, 1]]" by (simp add: parse_041)
  have m: "MIN_VERSION \<le> Max (set [[0, 4, 1]])" using le1 by simp
  have h: "lock_path ?e = Parsed (sample_lock [''0.x.0''])" "lock_path ?f = Parsed (sample_lock [''0.4.1''])"
    "cargo_toml ?f = Inr ?text" by simp_all
  from unparsable_exit_status_same[OF h(1) lists_watched_sample f h(2) lists_watched_sample _ p h(3) m marker_in]
  have "exit_status (run ?e) = 1 \<and> exit_status (run ?f) = 1" by simp
  with f m show ?thesis by simp
qed

end
